theory Spec2Isabelle
  imports Main
begin

section \<open>Python values met by the notebook\<close>

text \<open>
  The notebook \<^verbatim>\<open>src/unnamed/part_000\<close> defines four functions that are glue over three
  services it does not define: Python's \<^verbatim>\<open>exec\<close>, the \<^verbatim>\<open>inspect\<close> module and IPython's
  magic registration decorators. The values they exchange are modelled here.
\<close>

text \<open>
  \<^verbatim>\<open>
  class MagicType(enum.Enum):
      LINE = enum.auto()
      CELL = enum.auto()
      LINE_CELL = enum.auto()
  \<close>
\<close>

datatype MagicType = LINE | CELL | LINE_CELL

text \<open>The kind of a parameter, as \<^verbatim>\<open>inspect.Parameter.kind\<close> has it.\<close>

datatype kind =
    POSITIONAL_ONLY
  | POSITIONAL_OR_KEYWORD
  | VAR_POSITIONAL
  | KEYWORD_ONLY
  | VAR_KEYWORD

text \<open>
  A Python value. A function object (what \<^verbatim>\<open>def\<close> and \<^verbatim>\<open>lambda\<close> create) carries its name
  and what \<^verbatim>\<open>inspect.signature\<close> finds for it: a signature, with the declared parameters in
  order, or the exception that \<^verbatim>\<open>inspect.signature\<close> raises (as it does when the attribute
  \<^verbatim>\<open>__signature__\<close> of the function holds an object that is no signature). A parameter has
  a name, a kind and, when it declares one, a default value. \<open>PyBuiltin\<close> stands for the
  callables that are not function objects (built-in functions and methods, classes). The
  body of a function is not modelled: no function of the notebook calls the functions it
  handles.

  An exception object is known by the names of the classes it is an instance of (its class
  first, then the bases of that class), its arguments and its cause (\<^verbatim>\<open>raise ... from\<close>).
\<close>

datatype pyval =
    PyNone
  | PyBool bool
  | PyInt int
  | PyStr string
  | PyTuple "pyval list"
  | PyMagicType MagicType
  | PyBuiltin string
  | PyFunction pyfunction
and pyfunction =
    Function (fn_name: string) (fn_signature: signature)
and signature =
    Signature "param list"
  | Raises exn
and param =
    Param (param_name: string) (param_kind: kind) (param_default: "pyval option")
and exn =
    Exn (exn_classes: "string list") (exn_args: "pyval list") (exn_cause: "exn option")

text \<open>The exception classes that the notebook meets, each with its bases.\<close>

definition KeyError :: "string list" where
  "KeyError = [''KeyError'', ''LookupError'', ''Exception'', ''BaseException'', ''object'']"


definition TypeError :: "string list" where
  "TypeError = [''TypeError'', ''Exception'', ''BaseException'', ''object'']"

definition SyntaxError :: "string list" where
  "SyntaxError = [''SyntaxError'', ''Exception'', ''BaseException'', ''object'']"

text \<open>\<^verbatim>\<open>inspect.isfunction(v)\<close>: \<^verbatim>\<open>isinstance(v, types.FunctionType)\<close>.\<close>

fun isfunction :: "pyval \<Rightarrow> bool" where
  "isfunction (PyFunction f) = True"
| "isfunction v = False"

text \<open>The built-in \<^verbatim>\<open>callable(v)\<close>.\<close>

fun callable :: "pyval \<Rightarrow> bool" where
  "callable (PyFunction f) = True"
| "callable (PyBuiltin b) = True"
| "callable v = False"

subsection \<open>\<^verbatim>\<open>inspect.getfullargspec\<close>\<close>

text \<open>
  The named tuple \<^verbatim>\<open>FullArgSpec\<close> (its \<^verbatim>\<open>annotations\<close> field is left out: annotations are
  not modelled).
\<close>

record FullArgSpec =
  args :: "string list"
  varargs :: "string option"
  varkw :: "string option"
  defaults :: "pyval list option"
  kwonlyargs :: "string list"
  kwonlydefaults :: "(string \<times> pyval) list option"

text \<open>
  \<^verbatim>\<open>inspect.getfullargspec\<close> asks for the signature, and an exception raised there leaves it
  as a \<^verbatim>\<open>TypeError\<close>:
  \<^verbatim>\<open>
      try:
          sig = _signature_from_callable(func, ...)
      except Exception as ex:
          raise TypeError('unsupported callable') from ex
  \<close>
  Then it walks the parameters of the signature: the names of the positional parameters go
  to \<^verbatim>\<open>args\<close>, the default values they declare go, in order, to the tuple \<^verbatim>\<open>defaults\<close>, and an
  empty tuple of defaults is replaced by \<^verbatim>\<open>None\<close> (\<^verbatim>\<open>if not defaults: defaults = None\<close>);
  likewise for the keyword-only parameters.
\<close>

definition is_positional :: "param \<Rightarrow> bool" where
  "is_positional p =
     (param_kind p = POSITIONAL_ONLY \<or> param_kind p = POSITIONAL_OR_KEYWORD)"

definition names_of_kind :: "kind \<Rightarrow> param list \<Rightarrow> string list" where
  "names_of_kind k ps = map param_name (filter (\<lambda>p. param_kind p = k) ps)"

definition none_if_empty :: "'a list \<Rightarrow> 'a list option" where
  "none_if_empty xs = (if xs = [] then None else Some xs)"

definition argspec :: "param list \<Rightarrow> FullArgSpec" where
  "argspec ps =
     \<lparr> args = names_of_kind POSITIONAL_ONLY ps @ names_of_kind POSITIONAL_OR_KEYWORD ps,
       varargs = (case names_of_kind VAR_POSITIONAL ps of [] \<Rightarrow> None | n # ns \<Rightarrow> Some n),
       varkw = (case names_of_kind VAR_KEYWORD ps of [] \<Rightarrow> None | n # ns \<Rightarrow> Some n),
       defaults = none_if_empty (List.map_filter param_default (filter is_positional ps)),
       kwonlyargs = names_of_kind KEYWORD_ONLY ps,
       kwonlydefaults = none_if_empty
         (List.map_filter (\<lambda>p. map_option (Pair (param_name p)) (param_default p))
            (filter (\<lambda>p. param_kind p = KEYWORD_ONLY) ps)) \<rparr>"

definition getfullargspec :: "pyfunction \<Rightarrow> exn + FullArgSpec" where
  "getfullargspec f =
     (case fn_signature f of
        Raises ex \<Rightarrow>
          (if ''Exception'' \<in> set (exn_classes ex)
           then Inl (Exn TypeError [PyStr ''unsupported callable''] (Some ex))
           else Inl ex)
      | Signature ps \<Rightarrow> Inr (argspec ps))"

section \<open>Identify the magic type\<close>

text \<open>
  \<^verbatim>\<open>
  def detect_magic_type(fn: Callable) -> Optional[MagicType]:
      spec = inspect.getfullargspec(fn)
      if len(spec.args) == 1:
          if spec.defaults is None:
              return MagicType.LINE
      elif len(spec.args) == 2:
          if spec.defaults is None:
              return MagicType.CELL
          elif len(spec.defaults) == 1 and spec.defaults[-1] is None:
              return MagicType.LINE_CELL

      # The function does not fit the IPython magic scheme
      return None
  \<close>
  There is no \<^verbatim>\<open>try\<close> around \<^verbatim>\<open>inspect.getfullargspec\<close>: what it raises leaves
  \<^verbatim>\<open>detect_magic_type\<close>.
\<close>

definition detect_magic_type :: "pyfunction \<Rightarrow> exn + MagicType option" where
  "detect_magic_type fn =
     (case getfullargspec fn of
        Inl e \<Rightarrow> Inl e
      | Inr spec \<Rightarrow>
          Inr (if length (args spec) = 1 then
                 (if defaults spec = None then Some LINE else None)
               else if length (args spec) = 2 then
                 (if defaults spec = None then Some CELL
                  else if length (the (defaults spec)) = 1
                          \<and> last (the (defaults spec)) = PyNone
                    then Some LINE_CELL
                  else None)
               else None))"

section \<open>The notebook and the host runtime\<close>

text \<open>
  The code of the notebook runs in an interpreter whose state it shares with the cells it
  executes: \<^verbatim>\<open>exec(cell, None, content)\<close> runs the cell with the globals of the notebook.
  Of these globals the functions of the notebook read one object whose content they depend
  on and that a cell can change, the dictionary that the name \<^verbatim>\<open>registrars\<close> is bound to; what
  this dictionary holds is a field of the state. The rest of the state (the other globals,
  IPython's magic registry) is a value \<open>runtime\<close> that the notebook's code never looks into.
  That the names \<^verbatim>\<open>inspect\<close>, \<^verbatim>\<open>MagicType\<close>, \<^verbatim>\<open>KeyError\<close>, \<^verbatim>\<open>RuntimeError\<close> and those of the
  four functions stay bound as the notebook finds or binds them, and \<^verbatim>\<open>registrars\<close> to a
  dictionary, is taken for granted: a cell that rebinds them replaces the code that this
  theory is about.

  The keys of the dictionary are tags: what \<^verbatim>\<open>detect_magic_type\<close> returns and
  \<^verbatim>\<open>register_magic\<close> is given, a member of \<^verbatim>\<open>MagicType\<close> or \<^verbatim>\<open>None\<close>. Its values are Python
  objects.
\<close>

type_synonym dict = "(string \<times> pyval) list"

record 'w notebook =
  registrars :: "(MagicType option \<times> pyval) list"
  runtime :: 'w

text \<open>
  An action takes the state and gives back the state after it together with either the
  exception it raised or its value. The host is what the notebook calls but does not define:

  \<^item> \<open>exec H cell s\<close> is \<^verbatim>\<open>content = {}; exec(cell, None, content)\<close>: its value is the
    dictionary \<^verbatim>\<open>content\<close> afterwards, as the list of its items in insertion order (the keys
    of a dictionary are distinct);
  \<^item> \<open>call H v fn\<close> is the call \<^verbatim>\<open>v(fn)\<close> of the object \<open>v\<close>;
  \<^item> the three registrars are the objects that IPython binds to \<^verbatim>\<open>register_line_magic\<close>,
    \<^verbatim>\<open>register_cell_magic\<close> and \<^verbatim>\<open>register_line_cell_magic\<close>.
\<close>

type_synonym ('a, 'w) action = "'w notebook \<Rightarrow> (exn + 'a) \<times> 'w notebook"

record 'w host =
  exec :: "string \<Rightarrow> (dict, 'w) action"
  call :: "pyval \<Rightarrow> pyfunction \<Rightarrow> (pyval, 'w) action"
  register_line_magic :: pyval
  register_cell_magic :: pyval
  register_line_cell_magic :: pyval

section \<open>Extract functions from the cell content\<close>

text \<open>
  \<^verbatim>\<open>
  def get_public_functions(cell: str) -> Dict[str, Callable]:
      content = {}
      exec(cell, None, content)
      return {name: fn for name, fn in content.items() if inspect.isfunction(fn)}
  \<close>
  There is no \<^verbatim>\<open>try\<close> around \<^verbatim>\<open>exec\<close>: what it raises leaves \<^verbatim>\<open>get_public_functions\<close>.
  The items kept by the comprehension are function objects, and the result has that type.
\<close>

fun function_item :: "string \<times> pyval \<Rightarrow> (string \<times> pyfunction) option" where
  "function_item (name, PyFunction f) = Some (name, f)"
| "function_item (name, v) = None"

definition get_public_functions ::
  "'w host \<Rightarrow> string \<Rightarrow> ((string \<times> pyfunction) list, 'w) action" where
  "get_public_functions H cell s =
     (case exec H cell s of
        (Inl e, s') \<Rightarrow> (Inl e, s')
      | (Inr content, s') \<Rightarrow> (Inr (List.map_filter function_item content), s'))"

section \<open>Register a function as magic\<close>

text \<open>
  \<^verbatim>\<open>
  registrars = {
      MagicType.LINE: register_line_magic,
      MagicType.CELL: register_cell_magic,
      MagicType.LINE_CELL: register_line_cell_magic,
  }
  \<close>
  \<open>initial_registrars H\<close> is the dictionary that this cell of the notebook creates; the field
  \<open>registrars\<close> of the state is what the dictionary holds when it is read.
\<close>

definition initial_registrars :: "'w host \<Rightarrow> (MagicType option \<times> pyval) list" where
  "initial_registrars H =
     [(Some LINE, register_line_magic H),
      (Some CELL, register_cell_magic H),
      (Some LINE_CELL, register_line_cell_magic H)]"





section \<open>Putting everything together\<close>



section \<open>The vocabulary of the properties\<close>

text \<open>
  The notebook states the rules of the signatures in terms of the arguments of a function
  and their defaults:
  \<^item> line magics take a single argument \<^verbatim>\<open>line\<close> without a default;
  \<^item> cell magics take two arguments \<^verbatim>\<open>line, cell\<close> without defaults;
  \<^item> line/cell magics take two arguments \<^verbatim>\<open>line, cell=None\<close> where the second defaults to
    \<^verbatim>\<open>None\<close>.

  The arguments counted are the positional parameters of the signature, \<open>positional f\<close>:
  they are what \<^verbatim>\<open>spec.args\<close> and \<^verbatim>\<open>spec.defaults\<close> hold. A parameter \<^verbatim>\<open>*args\<close> or
  \<^verbatim>\<open>**kwargs\<close> and the keyword-only parameters are not counted, and \<^verbatim>\<open>detect_magic_type\<close>
  does not read them. A function for which \<^verbatim>\<open>inspect.signature\<close> raises has no arguments to
  count.
\<close>

definition positional :: "pyfunction \<Rightarrow> param list option" where
  "positional f =
     (case fn_signature f of
        Signature ps \<Rightarrow> Some (filter is_positional ps)
      | Raises ex \<Rightarrow> None)"

text \<open>
  What an argument specification says of the defaults: \<^verbatim>\<open>defaults\<close> is the tuple of the
  default values of the last arguments of \<^verbatim>\<open>args\<close>. \<open>argument_default spec i\<close> is the default
  of the argument of index \<open>i\<close> (from 0), if it has one.
\<close>

definition argument_default :: "FullArgSpec \<Rightarrow> nat \<Rightarrow> pyval option" where
  "argument_default spec i =
     (case defaults spec of
        None \<Rightarrow> None
      | Some ds \<Rightarrow>
          if i + length ds < length (args spec) then None
          else Some (ds ! (i + length ds - length (args spec))))"




text \<open>
  Python refuses a signature in which a positional parameter without a default follows one
  with a default (\<^verbatim>\<open>SyntaxError: non-default argument follows default argument\<close>, and the
  same check in \<^verbatim>\<open>inspect.Signature\<close>): in the parameters of a function object the defaults
  are the last ones.
\<close>

fun defaults_last :: "param list \<Rightarrow> bool" where
  "defaults_last [] = True"
| "defaults_last (p # ps) =
     (if param_default p = None then defaults_last ps
      else list_all (\<lambda>q. param_default q \<noteq> None) ps)"





subsection \<open>A host for the examples\<close>

text \<open>
  A host whose \<open>runtime\<close> is the list of the registrations made so far, each the magic type
  of the registrar called and the name of the function given to it, oldest first. Its
  registrars always succeed. Its \<open>exec\<close> and its \<open>call\<close> are tables of what Python does on
  the cells and the objects of the examples below, and on no other are they meant to be read
  (there \<open>exec\<close> leaves \<^verbatim>\<open>content\<close> empty and \<open>call\<close> returns \<^verbatim>\<open>None\<close>). The cells:
  \<^item> \<open>cell_foo_bar\<close>, the test cell of the notebook, binds \<^verbatim>\<open>foo\<close> to \<^verbatim>\<open>None\<close> and defines
    \<^verbatim>\<open>bar()\<close>;
  \<^item> \<open>cell_magics\<close>, the cell the notebook gives to its cell magic, defines
    \<^verbatim>\<open>my_second_line_magic(line)\<close>, \<^verbatim>\<open>my_cell_magic(line, cell)\<close> and
    \<^verbatim>\<open>my_line_cell_magic(line, cell=None)\<close>; here with \<^verbatim>\<open>my_other_function()\<close> after them;
  \<^item> \<open>cell_malformed\<close> is not Python: compiling it raises \<^verbatim>\<open>SyntaxError\<close>;
  \<^item> \<open>cell_a\<close> defines \<^verbatim>\<open>a(line)\<close>; \<open>cell_clear\<close> empties the dictionary \<^verbatim>\<open>registrars\<close> of the
    notebook, which the cell finds among its globals; \<open>cell_clear_a\<close> does both;
  \<^item> \<open>cell_signature\<close> defines \<^verbatim>\<open>a(line)\<close>, \<^verbatim>\<open>f(line)\<close> and \<^verbatim>\<open>b(line)\<close> and stores 5 in the
    attribute \<^verbatim>\<open>__signature__\<close> of \<^verbatim>\<open>f\<close>, so that \<^verbatim>\<open>inspect.signature(f)\<close> raises
    \<^verbatim>\<open>TypeError\<close>.
\<close>

definition newline :: string where
  "newline = [CHR 0x0A]"

definition cell_foo_bar :: string where
  "cell_foo_bar = ''foo = None'' @ newline @ ''def bar(): return 0''"

definition cell_magics :: string where
  "cell_magics =
     ''def my_second_line_magic(line): pass'' @ newline @
     ''def my_cell_magic(line, cell): pass'' @ newline @
     ''def my_line_cell_magic(line, cell=None): pass'' @ newline @
     ''def my_other_function(): pass''"

definition cell_malformed :: string where
  "cell_malformed = ''def (''"

definition cell_a :: string where
  "cell_a = ''def a(line): pass''"

definition cell_clear :: string where
  "cell_clear = ''registrars.clear()''"

definition cell_clear_a :: string where
  "cell_clear_a = ''registrars.clear()'' @ newline @ ''def a(line): pass''"

definition cell_signature :: string where
  "cell_signature =
     ''def a(line): pass'' @ newline @
     ''def f(line): pass'' @ newline @
     ''f.__signature__ = 5'' @ newline @
     ''def b(line): pass''"

definition arg :: "string \<Rightarrow> param" where
  "arg name = Param name POSITIONAL_OR_KEYWORD None"

definition my_second_line_magic :: pyfunction where
  "my_second_line_magic = Function ''my_second_line_magic'' (Signature [arg ''line''])"

definition my_cell_magic :: pyfunction where
  "my_cell_magic = Function ''my_cell_magic'' (Signature [arg ''line'', arg ''cell''])"

definition my_line_cell_magic :: pyfunction where
  "my_line_cell_magic =
     Function ''my_line_cell_magic''
       (Signature [arg ''line'', Param ''cell'' POSITIONAL_OR_KEYWORD (Some PyNone)])"

definition my_other_function :: pyfunction where
  "my_other_function = Function ''my_other_function'' (Signature [])"

text \<open>\<^verbatim>\<open>def both_defaults(line=1, cell=None): pass\<close> and \<^verbatim>\<open>def line_default(line=None): pass\<close>.\<close>

definition both_defaults :: pyfunction where
  "both_defaults =
     Function ''both_defaults''
       (Signature [Param ''line'' POSITIONAL_OR_KEYWORD (Some (PyInt 1)),
                   Param ''cell'' POSITIONAL_OR_KEYWORD (Some PyNone)])"

definition line_default :: pyfunction where
  "line_default =
     Function ''line_default'' (Signature [Param ''line'' POSITIONAL_OR_KEYWORD (Some PyNone)])"

text \<open>
  \<^verbatim>\<open>def f(line): pass\<close> after \<^verbatim>\<open>f.__signature__ = 5\<close>: \<^verbatim>\<open>inspect.signature(f)\<close> raises
  \<^verbatim>\<open>TypeError('unexpected object 5 in __signature__ attribute')\<close>.
\<close>

definition not_a_signature :: exn where
  "not_a_signature =
     Exn TypeError [PyStr ''unexpected object 5 in __signature__ attribute''] None"

definition f_signature_5 :: pyfunction where
  "f_signature_5 = Function ''f'' (Raises not_a_signature)"

definition fn_a :: pyfunction where
  "fn_a = Function ''a'' (Signature [arg ''line''])"

definition fn_b :: pyfunction where
  "fn_b = Function ''b'' (Signature [arg ''line''])"

text \<open>
  The \<^verbatim>\<open>SyntaxError\<close> of \<open>cell_malformed\<close> (of its arguments the message only), and the
  \<^verbatim>\<open>TypeError\<close> of a call of \<^verbatim>\<open>None\<close>.
\<close>

definition invalid_syntax :: exn where
  "invalid_syntax = Exn SyntaxError [PyStr ''invalid syntax''] None"

definition not_callable :: exn where
  "not_callable =
     Exn TypeError
       [PyStr ([CHR 0x27] @ ''NoneType'' @ [CHR 0x27] @ '' object is not callable'')] None"

type_synonym registry = "(MagicType \<times> string) list"

definition example_exec :: "string \<Rightarrow> (dict, registry) action" where
  "example_exec cell s =
     (if cell = cell_foo_bar then
        (Inr [(''foo'', PyNone), (''bar'', PyFunction (Function ''bar'' (Signature [])))], s)
      else if cell = cell_magics then
        (Inr [(''my_second_line_magic'', PyFunction my_second_line_magic),
              (''my_cell_magic'', PyFunction my_cell_magic),
              (''my_line_cell_magic'', PyFunction my_line_cell_magic),
              (''my_other_function'', PyFunction my_other_function)], s)
      else if cell = cell_malformed then (Inl invalid_syntax, s)
      else if cell = cell_a then (Inr [(''a'', PyFunction fn_a)], s)
      else if cell = cell_clear then (Inr [], s\<lparr>registrars := []\<rparr>)
      else if cell = cell_clear_a then (Inr [(''a'', PyFunction fn_a)], s\<lparr>registrars := []\<rparr>)
      else if cell = cell_signature then
        (Inr [(''a'', PyFunction fn_a), (''f'', PyFunction f_signature_5),
              (''b'', PyFunction fn_b)], s)
      else (Inr [], s))"

text \<open>
  The objects that the example host calls: its three registrars, which add to the registry
  and return the function; \<^verbatim>\<open>{}.__getitem__\<close>, the subscript of an empty dictionary, which
  raises \<^verbatim>\<open>KeyError\<close> with its argument; and \<^verbatim>\<open>None\<close>, which is not callable.
\<close>

definition example_call :: "pyval \<Rightarrow> pyfunction \<Rightarrow> (pyval, registry) action" where
  "example_call v f s =
     (if v = PyBuiltin ''register_line_magic'' then
        (Inr (PyFunction f), s\<lparr>runtime := runtime s @ [(LINE, fn_name f)]\<rparr>)
      else if v = PyBuiltin ''register_cell_magic'' then
        (Inr (PyFunction f), s\<lparr>runtime := runtime s @ [(CELL, fn_name f)]\<rparr>)
      else if v = PyBuiltin ''register_line_cell_magic'' then
        (Inr (PyFunction f), s\<lparr>runtime := runtime s @ [(LINE_CELL, fn_name f)]\<rparr>)
      else if v = PyBuiltin ''{}.__getitem__'' then
        (Inl (Exn KeyError [PyFunction f] None), s)
      else if v = PyNone then (Inl not_callable, s)
      else (Inr PyNone, s))"

definition example_host :: "registry host" where
  "example_host =
     \<lparr> exec = example_exec,
       call = example_call,
       register_line_magic = PyBuiltin ''register_line_magic'',
       register_cell_magic = PyBuiltin ''register_cell_magic'',
       register_line_cell_magic = PyBuiltin ''register_line_cell_magic'' \<rparr>"

text \<open>
  The notebook after its cells have run and before any magic is registered, and the
  notebook after \<^verbatim>\<open>registrars[MagicType.LINE] = {}.__getitem__\<close> and
  \<^verbatim>\<open>registrars[MagicType.CELL] = None\<close>.
\<close>

definition fresh_notebook :: "registry notebook" where
  "fresh_notebook = \<lparr> registrars = initial_registrars example_host, runtime = [] \<rparr>"


section \<open>Properties of the signature classifier\<close>

text \<open>
  What \<^verbatim>\<open>detect_magic_type\<close> reads of the argument specification, \<^verbatim>\<open>len(spec.args)\<close> and
  \<^verbatim>\<open>spec.defaults\<close>, in terms of the positional parameters of the signature.
\<close>

lemma length_args_argspec:
  "length (args (argspec ps)) = length (filter is_positional ps)"
proof -
  have "length (names_of_kind POSITIONAL_ONLY ps) + length (names_of_kind POSITIONAL_OR_KEYWORD ps)
        = length (filter is_positional ps)"
    by (induction ps) (auto simp: names_of_kind_def is_positional_def)
  then show ?thesis
    by (simp add: argspec_def)
qed

lemma defaults_argspec:
  "defaults (argspec ps) = none_if_empty (List.map_filter param_default (filter is_positional ps))"
  by (simp add: argspec_def)

lemma positional_Some:
  "positional f = Some qs \<longleftrightarrow> (\<exists>ps. fn_signature f = Signature ps \<and> qs = filter is_positional ps)"
  by (auto simp: positional_def split: signature.splits)

lemma detect_magic_type_positional:
  assumes "positional f = Some ps"
  shows "detect_magic_type f =
     Inr (let ds = List.map_filter param_default ps in
          if length ps = 1 then (if ds = [] then Some LINE else None)
          else if length ps = 2 then
            (if ds = [] then Some CELL
             else if length ds = 1 \<and> last ds = PyNone then Some LINE_CELL
             else None)
          else None)"
  using assms
  by (auto simp: positional_Some detect_magic_type_def getfullargspec_def Let_def
      length_args_argspec defaults_argspec none_if_empty_def)

lemmas example_functions =
  my_second_line_magic_def my_cell_magic_def my_line_cell_magic_def my_other_function_def
  both_defaults_def line_default_def fn_a_def fn_b_def f_signature_5_def arg_def
  positional_def is_positional_def

text \<open>
  Claim C6: for every function taking exactly one declared argument with no default value,
  \<^verbatim>\<open>detect_magic_type\<close> returns \<^verbatim>\<open>MagicType.LINE\<close>. The declared arguments are the positional
  parameters of the function (\<^verbatim>\<open>spec.args\<close>).
\<close>

theorem one_argument_is_LINE:
  assumes "positional f = Some [p]" and "param_default p = None"
  shows "detect_magic_type f = Inr (Some LINE)"
  using assms by (simp add: detect_magic_type_positional)

theorem one_argument_is_LINE_witness:
  "positional my_second_line_magic = Some [arg ''line''] \<and> param_default (arg ''line'') = None
   \<and> detect_magic_type my_second_line_magic = Inr (Some LINE)"
proof -
  have p: "positional my_second_line_magic = Some [arg ''line'']"
    by (simp add: example_functions)
  have d: "param_default (arg ''line'') = None"
    by (simp add: arg_def)
  from p d one_argument_is_LINE [OF p d] show ?thesis by simp
qed

text \<open>
  Claim C7: for every function taking exactly two declared arguments with no default
  values, \<^verbatim>\<open>detect_magic_type\<close> returns \<^verbatim>\<open>MagicType.CELL\<close>.
\<close>

theorem two_arguments_is_CELL:
  assumes "positional f = Some [p, q]" and "param_default p = None" and "param_default q = None"
  shows "detect_magic_type f = Inr (Some CELL)"
  using assms by (simp add: detect_magic_type_positional)

theorem two_arguments_is_CELL_witness:
  "positional my_cell_magic = Some [arg ''line'', arg ''cell'']
   \<and> param_default (arg ''line'') = None \<and> param_default (arg ''cell'') = None
   \<and> detect_magic_type my_cell_magic = Inr (Some CELL)"
proof -
  have p: "positional my_cell_magic = Some [arg ''line'', arg ''cell'']"
    by (simp add: example_functions)
  have d: "param_default (arg ''line'') = None" "param_default (arg ''cell'') = None"
    by (simp_all add: arg_def)
  from p d two_arguments_is_CELL [OF p d] show ?thesis by simp
qed

text \<open>
  Claim C2, as stated: every function taking exactly two declared arguments whose second
  argument defaults to \<^verbatim>\<open>None\<close> is classified \<^verbatim>\<open>MagicType.LINE_CELL\<close>. It fails for
  \<^verbatim>\<open>def both_defaults(line=1, cell=None)\<close>: its second argument defaults to \<^verbatim>\<open>None\<close>, but
  \<^verbatim>\<open>spec.defaults\<close> is \<^verbatim>\<open>(1, None)\<close>, of length two, and the test
  \<^verbatim>\<open>len(spec.defaults) == 1\<close> sends it to \<^verbatim>\<open>return None\<close>.
\<close>

theorem second_default_None_counterexample:
  "positional both_defaults =
     Some [Param ''line'' POSITIONAL_OR_KEYWORD (Some (PyInt 1)),
           Param ''cell'' POSITIONAL_OR_KEYWORD (Some PyNone)]
   \<and> detect_magic_type both_defaults = Inr None"
proof -
  have p: "positional both_defaults =
     Some [Param ''line'' POSITIONAL_OR_KEYWORD (Some (PyInt 1)),
           Param ''cell'' POSITIONAL_OR_KEYWORD (Some PyNone)]"
    by (simp add: example_functions)
  show ?thesis
    by (simp add: detect_magic_type_positional [OF p] p)
qed

text \<open>
  Claim C2, amended: for every function taking exactly two declared arguments of which the
  first has no default value and the second defaults to \<^verbatim>\<open>None\<close>, \<^verbatim>\<open>detect_magic_type\<close>
  returns \<^verbatim>\<open>MagicType.LINE_CELL\<close>.
\<close>

theorem first_plain_second_None_is_LINE_CELL:
  assumes "positional f = Some [p, q]" and "param_default p = None"
    and "param_default q = Some PyNone"
  shows "detect_magic_type f = Inr (Some LINE_CELL)"
  using assms by (simp add: detect_magic_type_positional)

theorem first_plain_second_None_is_LINE_CELL_witness:
  "positional my_line_cell_magic =
     Some [arg ''line'', Param ''cell'' POSITIONAL_OR_KEYWORD (Some PyNone)]
   \<and> param_default (arg ''line'') = None
   \<and> param_default (Param ''cell'' POSITIONAL_OR_KEYWORD (Some PyNone)) = Some PyNone
   \<and> detect_magic_type my_line_cell_magic = Inr (Some LINE_CELL)"
proof -
  have p: "positional my_line_cell_magic =
      Some [arg ''line'', Param ''cell'' POSITIONAL_OR_KEYWORD (Some PyNone)]"
    by (simp add: example_functions)
  have d: "param_default (arg ''line'') = None"
    "param_default (Param ''cell'' POSITIONAL_OR_KEYWORD (Some PyNone)) = Some PyNone"
    by (simp_all add: arg_def)
  from p d first_plain_second_None_is_LINE_CELL [OF p d] show ?thesis by simp
qed

text \<open>
  Claim C8: for every function taking zero declared arguments, \<^verbatim>\<open>detect_magic_type\<close>
  returns \<^verbatim>\<open>None\<close>.
\<close>

theorem zero_arguments_is_None:
  assumes "positional f = Some []"
  shows "detect_magic_type f = Inr None"
  using assms by (simp add: detect_magic_type_positional)

theorem zero_arguments_is_None_witness:
  "positional my_other_function = Some [] \<and> detect_magic_type my_other_function = Inr None"
proof -
  have p: "positional my_other_function = Some []"
    by (simp add: example_functions)
  from p zero_arguments_is_None [OF p] show ?thesis by simp
qed

text \<open>The three shapes in terms of the positional parameters and the defaults they declare.\<close>

lemma length_map_filter_le: "length (List.map_filter g xs) \<le> length xs"
  by (induction xs) (auto simp: List.map_filter_simps split: option.splits)





text \<open>
  For the parameters of a function object, whose defaults are the last ones, the default
  that the argument specification gives to an argument is the one its parameter declares.
\<close>

lemma all_defaults:
  assumes "list_all (\<lambda>q. param_default q \<noteq> None) ps"
  shows "map param_default ps = map Some (List.map_filter param_default ps)"
  using assms by (induction ps) (auto simp: List.map_filter_simps)

lemma defaults_last_split:
  assumes "defaults_last ps"
  shows "map param_default ps =
     replicate (length ps - length (List.map_filter param_default ps)) None
       @ map Some (List.map_filter param_default ps)"
  using assms
proof (induction ps)
  case Nil
  show ?case by simp
next
  case (Cons p ps)
  show ?case
  proof (cases "param_default p")
    case None
    with Cons have IH: "map param_default ps =
        replicate (length ps - length (List.map_filter param_default ps)) None
          @ map Some (List.map_filter param_default ps)"
      by simp
    have "length (List.map_filter param_default ps) \<le> length ps"
      by (rule length_map_filter_le)
    then have "length (p # ps) - length (List.map_filter param_default ps)
        = Suc (length ps - length (List.map_filter param_default ps))"
      by simp
    with None IH show ?thesis
      by (simp add: List.map_filter_simps)
  next
    case (Some d)
    with Cons.prems have "list_all (\<lambda>q. param_default q \<noteq> None) ps"
      by simp
    from all_defaults [OF this] have m: "map param_default ps = map Some (List.map_filter param_default ps)" .
    then have "length ps = length (List.map_filter param_default ps)"
      by (metis length_map)
    with Some m show ?thesis
      by (simp add: List.map_filter_simps)
  qed
qed

lemma argument_default_is_param_default:
  assumes "positional f = Some ps" and "defaults_last ps"
    and "getfullargspec f = Inr spec" and "i < length ps"
  shows "argument_default spec i = param_default (ps ! i)"
proof -
  from assms(1) obtain qs where sig: "fn_signature f = Signature qs"
    and ps: "ps = filter is_positional qs"
    by (auto simp: positional_Some)
  define ds where "ds = List.map_filter param_default ps"
  have le: "length ds \<le> length ps"
    unfolding ds_def by (rule length_map_filter_le)
  from assms(3) sig have spec: "spec = argspec qs"
    by (simp add: getfullargspec_def)
  have n: "length (args spec) = length ps"
    by (simp add: spec length_args_argspec ps)
  have d: "defaults spec = none_if_empty ds"
    by (simp add: spec defaults_argspec ps ds_def)
  have split: "map param_default ps = replicate (length ps - length ds) None @ map Some ds"
    unfolding ds_def by (rule defaults_last_split [OF assms(2)])
  have "param_default (ps ! i) = map param_default ps ! i"
    using assms(4) by simp
  also have "\<dots> = (replicate (length ps - length ds) None @ map Some ds) ! i"
    by (simp only: split)
  also have "\<dots> = argument_default spec i"
    using le assms(4)
    by (auto simp: argument_default_def n d none_if_empty_def nth_append)
  finally show ?thesis by simp
qed

section \<open>Properties of the extraction\<close>

text \<open>
  The result of \<^verbatim>\<open>get_public_functions\<close> has the type of the function objects; read as
  Python values, its items are the items that the comprehension of the source keeps.
\<close>

lemma map_filter_function_item:
  "map (\<lambda>(name, f). (name, PyFunction f)) (List.map_filter function_item content)
     = filter (\<lambda>(name, fn). isfunction fn) content"
proof (induction content)
  case Nil
  show ?case by simp
next
  case (Cons item content)
  obtain name v where item: "item = (name, v)" by (cases item)
  show ?case using Cons by (cases v) (simp_all add: item)
qed

lemmas example_cells =
  example_host_def example_exec_def cell_foo_bar_def cell_magics_def cell_malformed_def
  cell_a_def cell_clear_def cell_clear_a_def cell_signature_def newline_def

text \<open>
  Claim C3, as stated: for a cell with malformed code or non-function bindings,
  \<^verbatim>\<open>get_public_functions\<close> never signals an error, and filters them out of the mapping it
  returns. It fails for the cell \<^verbatim>\<open>def (\<close>: \<^verbatim>\<open>exec\<close> raises \<^verbatim>\<open>SyntaxError\<close>, nothing catches
  it, and \<^verbatim>\<open>get_public_functions\<close> raises it instead of returning a mapping.
\<close>

theorem malformed_cell_counterexample:
  "get_public_functions example_host ''def ('' fresh_notebook
     = (Inl (Exn SyntaxError [PyStr ''invalid syntax''] None), fresh_notebook)"
  by (simp add: get_public_functions_def example_cells invalid_syntax_def)

text \<open>
  Claim C3, amended: when executing the cell raises an exception (malformed code raises
  \<^verbatim>\<open>SyntaxError\<close>), \<^verbatim>\<open>get_public_functions\<close> raises that exception and returns no mapping;
  when executing the cell returns, \<^verbatim>\<open>get_public_functions\<close> signals no error and returns
  the function-typed bindings of the cell, in their order: the non-function bindings are
  left out by the filter.
\<close>

theorem filters_bindings_passes_errors:
  "(\<forall>e s'. exec H cell s = (Inl e, s') \<longrightarrow>
       get_public_functions H cell s = (Inl e, s'))
   \<and> (\<forall>content s'. exec H cell s = (Inr content, s') \<longrightarrow>
       (\<exists>fns. get_public_functions H cell s = (Inr fns, s')
          \<and> map (\<lambda>(name, f). (name, PyFunction f)) fns
              = filter (\<lambda>(name, fn). isfunction fn) content))"
  by (simp add: get_public_functions_def map_filter_function_item)

theorem filters_bindings_passes_errors_witness:
  "exec example_host cell_malformed fresh_notebook = (Inl invalid_syntax, fresh_notebook)
   \<and> get_public_functions example_host cell_malformed fresh_notebook
       = (Inl invalid_syntax, fresh_notebook)
   \<and> exec example_host cell_foo_bar fresh_notebook
       = (Inr [(''foo'', PyNone), (''bar'', PyFunction (Function ''bar'' (Signature [])))],
          fresh_notebook)
   \<and> (\<exists>fns. get_public_functions example_host cell_foo_bar fresh_notebook
                = (Inr fns, fresh_notebook)
          \<and> map (\<lambda>(name, f). (name, PyFunction f)) fns
              = [(''bar'', PyFunction (Function ''bar'' (Signature [])))])"
proof -
  have m: "exec example_host cell_malformed fresh_notebook = (Inl invalid_syntax, fresh_notebook)"
    by (simp add: example_cells)
  have b: "exec example_host cell_foo_bar fresh_notebook
       = (Inr [(''foo'', PyNone), (''bar'', PyFunction (Function ''bar'' (Signature [])))],
          fresh_notebook)"
    by (simp add: example_cells)
  from filters_bindings_passes_errors [of example_host cell_malformed fresh_notebook] m
  have 1: "get_public_functions example_host cell_malformed fresh_notebook
       = (Inl invalid_syntax, fresh_notebook)"
    by blast
  from filters_bindings_passes_errors [of example_host cell_foo_bar fresh_notebook] b
  have 2: "\<exists>fns. get_public_functions example_host cell_foo_bar fresh_notebook
                = (Inr fns, fresh_notebook)
          \<and> map (\<lambda>(name, f). (name, PyFunction f)) fns
              = [(''bar'', PyFunction (Function ''bar'' (Signature [])))]"
    by simp
  from m b 1 2 show ?thesis by blast
qed

text \<open>
  Claim C5: for every cell that binds one non-callable value and defines one function (in
  either order), \<^verbatim>\<open>get_public_functions\<close> returns the mapping that holds the function under
  its name and nothing else.
\<close>

theorem only_the_function:
  assumes "exec H cell s = (Inr content, s')"
    and "content = [(x, v), (name, PyFunction f)] \<or> content = [(name, PyFunction f), (x, v)]"
    and "\<not> callable v"
  shows "get_public_functions H cell s = (Inr [(name, f)], s')"
proof -
  from \<open>\<not> callable v\<close> have "function_item (x, v) = None"
    by (cases v) simp_all
  with assms(1,2) show ?thesis
    by (auto simp: get_public_functions_def)
qed

theorem only_the_function_witness:
  "exec example_host cell_foo_bar fresh_notebook
     = (Inr [(''foo'', PyNone), (''bar'', PyFunction (Function ''bar'' (Signature [])))],
        fresh_notebook)
   \<and> \<not> callable PyNone
   \<and> get_public_functions example_host cell_foo_bar fresh_notebook
       = (Inr [(''bar'', Function ''bar'' (Signature []))], fresh_notebook)"
proof -
  have e: "exec example_host cell_foo_bar fresh_notebook
     = (Inr [(''foo'', PyNone), (''bar'', PyFunction (Function ''bar'' (Signature [])))],
        fresh_notebook)"
    by (simp add: example_cells)
  have c: "\<not> callable PyNone" by simp
  from only_the_function [OF e _ c] e c show ?thesis by simp
qed

section \<open>Properties of the registration\<close>







section \<open>Properties of the cell magic\<close>























end
